theory Spec2Isabelle
  imports Main "HOL-Library.Char_ord" "HOL-Library.List_Lexorder"
begin

section \<open>reqlogd: a shallow embedding of reqlogd.go\<close>

text \<open>
  The service has two parts: the start-up path (\<open>main\<close>, \<open>dbConfFromEnv\<close>, \<open>tlsConfig\<close>,
  \<open>newDB\<close>) and the per-request handler (\<open>serveReqLog\<close>, \<open>jsonError\<close>). Effects are made
  explicit: the process environment is a map, the file system and the driver's TLS registry
  are fields of a world record that is passed along, and the handler appends every effect
  it performs to a trace of events. Functions of the Go libraries whose result the code only
  passes on (PEM parsing, key pair loading, DSN formatting, URL escaping, JSON string
  quoting) are parameters, collected in records of functions.
\<close>

subsection \<open>Errors\<close>

text \<open>A Go error made by \<open>errors.New\<close> or \<open>fmt.Errorf\<close>: a value carrying its message.\<close>

datatype error = Error (message: string)

definition errCertPath :: error where
  "errCertPath = Error ''DB_CA_CERT_PATH is required and was not set''"

definition errClientCertPath :: error where
  "errClientCertPath = Error ''DB_CLIENT_CERT_PATH is required and was not set''"

definition errClientKeyPath :: error where
  "errClientKeyPath = Error ''DB_CLIENT_KEY_PATH is required and was not set''"

definition errCertPEM :: error where
  "errCertPEM = Error ''trusted conn with DB not established, cannot parse cert PEM''"

subsection \<open>Start-up: configuration of the store connection\<close>

datatype location = UTC | Zone string

text \<open>The fields of \<open>mysql.Config\<close> that the program sets; \<open>cfgTLSConfig\<close> is the name of
  the registered TLS profile, empty when there is none.\<close>

record mysql_Config =
  cfgUser :: string
  cfgPasswd :: string
  cfgNet :: string
  cfgAddr :: string
  cfgDBName :: string
  cfgLoc :: location
  cfgParseTime :: bool
  cfgTLSConfig :: string

record tls_Config =
  RootCAs :: "string list"
  Certificates :: "string list"

text \<open>What the start-up path reads and changes outside the process: the files, the
  driver's registry of TLS profiles, and (for the record) the paths read so far.\<close>

record startup_world =
  files :: "string \<rightharpoonup> string"
  tlsConfigRegistry :: "string \<rightharpoonup> tls_Config"
  reads :: "string list"

text \<open>Library functions taken as parameters: the certificates \<open>AppendCertsFromPEM\<close> finds in
  a PEM text (it reports success when there is at least one), \<open>tls.X509KeyPair\<close> on the two
  PEM texts, \<open>FormatDSN\<close>, and \<open>sql.Open\<close> with \<open>Ping\<close> on the handle it gives.\<close>

record startup_lib =
  AppendCertsFromPEM :: "string \<Rightarrow> string list"
  X509KeyPair :: "string \<Rightarrow> string \<Rightarrow> error + string"
  FormatDSN :: "mysql_Config \<Rightarrow> string"
  sql_Open :: "string \<Rightarrow> error + nat"
  Ping :: "nat \<Rightarrow> error option"

definition ReadFile :: "string \<Rightarrow> startup_world \<Rightarrow> (error + string) \<times> startup_world" where
  "ReadFile path w =
     ((case files w path of
         None \<Rightarrow> Inl (Error (''open '' @ path @ '': no such file or directory''))
       | Some b \<Rightarrow> Inr b),
      w\<lparr>reads := reads w @ [path]\<rparr>)"

definition LoadX509KeyPair ::
  "startup_lib \<Rightarrow> string \<Rightarrow> string \<Rightarrow> startup_world \<Rightarrow> (error + string) \<times> startup_world" where
  "LoadX509KeyPair L certFile keyFile w =
     (case ReadFile certFile w of
        (Inl err, w1) \<Rightarrow> (Inl err, w1)
      | (Inr certPEM, w1) \<Rightarrow>
          (case ReadFile keyFile w1 of
             (Inl err, w2) \<Rightarrow> (Inl err, w2)
           | (Inr keyPEM, w2) \<Rightarrow> (X509KeyPair L certPEM keyPEM, w2)))"

definition toLower :: "string \<Rightarrow> string" where
  "toLower s =
     map (\<lambda>c. if CHR ''A'' \<le> c \<and> c \<le> CHR ''Z'' then char_of (of_char c + (32::nat)) else c) s"

text \<open>\<open>mysql.RegisterTLSConfig\<close>: the keys that read as booleans and the two named modes are
  reserved; any other key is bound to the profile.\<close>

definition RegisterTLSConfig ::
  "string \<Rightarrow> tls_Config \<Rightarrow> startup_world \<Rightarrow> error option \<times> startup_world" where
  "RegisterTLSConfig key config w =
     (if key \<in> set [''1'', ''t'', ''T'', ''TRUE'', ''true'', ''True'',
                     ''0'', ''f'', ''F'', ''FALSE'', ''false'', ''False'']
         \<or> toLower key = ''skip-verify'' \<or> toLower key = ''preferred''
      then (Some (Error (''key '' @ [CHR 0x27] @ key @ [CHR 0x27] @ '' is reserved'')), w)
      else (None, w\<lparr>tlsConfigRegistry := (tlsConfigRegistry w)(key \<mapsto> config)\<rparr>))"

definition tlsConfig ::
  "startup_lib \<Rightarrow> string \<Rightarrow> string \<Rightarrow> string \<Rightarrow> startup_world
     \<Rightarrow> (error + string) \<times> startup_world" where
  "tlsConfig L caCertPath clientCertPath clientKeyPath w =
     (case ReadFile caCertPath w of
        (Inl err, w1) \<Rightarrow> (Inl err, w1)
      | (Inr pem, w1) \<Rightarrow>
          (let rootCertPool = AppendCertsFromPEM L pem in
           if rootCertPool = [] then (Inl errCertPEM, w1)
           else
             (case LoadX509KeyPair L clientCertPath clientKeyPath w1 of
                (Inl err, w2) \<Rightarrow> (Inl err, w2)
              | (Inr cert, w2) \<Rightarrow>
                  (let dbTLSConfig = \<lparr>RootCAs = rootCertPool, Certificates = [cert]\<rparr>;
                       tconfKey = ''custom''
                   in case RegisterTLSConfig tconfKey dbTLSConfig w2 of
                        (Some err, w3) \<Rightarrow> (Inl err, w3)
                      | (None, w3) \<Rightarrow> (Inr tconfKey, w3)))))"

text \<open>\<open>os.LookupEnv\<close> is application of the environment map.\<close>

definition dbConfFromEnv ::
  "startup_lib \<Rightarrow> (string \<rightharpoonup> string) \<Rightarrow> startup_world
     \<Rightarrow> (error + mysql_Config) \<times> startup_world" where
  "dbConfFromEnv L env w =
     (let dconf = \<lparr>cfgUser = ''root'', cfgPasswd = '''', cfgNet = ''tcp'',
                    cfgAddr = ''localhost:3306'', cfgDBName = ''test'', cfgLoc = UTC,
                    cfgParseTime = True, cfgTLSConfig = ''''\<rparr>;
          dconf = (case env ''DB_USER'' of Some v \<Rightarrow> dconf\<lparr>cfgUser := v\<rparr> | None \<Rightarrow> dconf);
          dconf = (case env ''DB_PASS'' of Some v \<Rightarrow> dconf\<lparr>cfgPasswd := v\<rparr> | None \<Rightarrow> dconf);
          dconf = (case env ''DB_ADDR'' of Some v \<Rightarrow> dconf\<lparr>cfgAddr := v\<rparr> | None \<Rightarrow> dconf);
          dconf = (case env ''DB_NAME'' of Some v \<Rightarrow> dconf\<lparr>cfgDBName := v\<rparr> | None \<Rightarrow> dconf)
      in case env ''DB_SKIP_TLS'' of
           Some _ \<Rightarrow> (Inr dconf, w)
         | None \<Rightarrow>
             (case env ''DB_CA_CERT_PATH'' of
                None \<Rightarrow> (Inl errCertPath, w)
              | Some caCertPath \<Rightarrow>
                  (case env ''DB_CLIENT_CERT_PATH'' of
                     None \<Rightarrow> (Inl errClientCertPath, w)
                   | Some clientCertPath \<Rightarrow>
                       (case env ''DB_CLIENT_KEY_PATH'' of
                          None \<Rightarrow> (Inl errClientKeyPath, w)
                        | Some clientKeyPath \<Rightarrow>
                            (case tlsConfig L caCertPath clientCertPath clientKeyPath w of
                               (Inl err, w') \<Rightarrow> (Inl err, w')
                             | (Inr tconf, w') \<Rightarrow>
                                 (Inr (dconf\<lparr>cfgTLSConfig := tconf\<rparr>), w'))))))"

definition newDB :: "startup_lib \<Rightarrow> mysql_Config \<Rightarrow> error + nat" where
  "newDB L dconf =
     (case sql_Open L (FormatDSN L dconf) of
        Inl err \<Rightarrow> Inl (Error (''newDB Open: '' @ message err))
      | Inr d \<Rightarrow>
          (case Ping L d of
             Some err \<Rightarrow> Inl (Error (''newDB Ping: '' @ message err))
           | None \<Rightarrow> Inr d))"

text \<open>How \<open>main\<close> ends: \<open>log.Fatal\<close> prints the error and exits with status 1 before
  anything listens; otherwise the server listens on the address with the store handle.\<close>

datatype outcome = Exit nat | ListenAndServe string nat

definition main ::
  "startup_lib \<Rightarrow> (string \<rightharpoonup> string) \<Rightarrow> startup_world
     \<Rightarrow> outcome \<times> string list \<times> startup_world" where
  "main L env w =
     (let lg = [''starting''];
          addr = (case env ''REQLOGD_ADDR'' of Some v \<Rightarrow> v | None \<Rightarrow> '':8080'')
      in case dbConfFromEnv L env w of
           (Inl err, w1) \<Rightarrow> (Exit 1, lg @ [message err], w1)
         | (Inr dconf, w1) \<Rightarrow>
             (case newDB L dconf of
                Inl err \<Rightarrow> (Exit 1, lg @ [message err], w1)
              | Inr d \<Rightarrow> (ListenAndServe addr d, lg @ [''listening on '' @ addr], w1)))"

subsection \<open>The request handler: data\<close>

text \<open>\<open>time.Time\<close>: an instant (nanoseconds since the epoch) shown in a location;
  \<open>UTC()\<close> keeps the instant and sets the location.\<close>

record Time =
  instant :: int
  loc :: location

definition Time_UTC :: "Time \<Rightarrow> Time" where
  "Time_UTC t = t\<lparr>loc := UTC\<rparr>"

text \<open>\<open>url.URL\<close>. \<open>User\<close> holds the rendered user information when there is one.\<close>

record url_URL =
  Scheme :: string
  Opaque :: string
  User :: "string option"
  urlHost :: string
  Path :: string
  RawPath :: string
  OmitHost :: bool
  ForceQuery :: bool
  RawQuery :: string
  Fragment :: string
  RawFragment :: string

text \<open>A request body is a reader: each \<open>Read\<close> takes the next element, data or a
  failure, and the end of the list is \<open>io.EOF\<close>.\<close>

datatype read_result = Data string | Fail error

record tls_ConnectionState =
  Version :: nat
  ServerName :: string

text \<open>\<open>http.Request\<close>. \<open>Header\<close> is a Go map from names to lists of values: an association
  list with distinct keys, whose order stands for the map's internal order, which the
  language leaves open. \<open>Body\<close> and \<open>TLS\<close> are \<open>None\<close> for nil.\<close>

record http_Request =
  Method :: string
  URL :: url_URL
  Proto :: string
  Header :: "(string \<times> string list) list"
  Body :: "read_result list option"
  Host :: string
  RemoteAddr :: string
  TLS :: "tls_ConnectionState option"
  Ctx :: nat

text \<open>The arguments of the insert statement, in the order of its columns.\<close>

record insert_args =
  arg_rat :: Time
  arg_url :: string
  arg_method :: string
  arg_remote :: string
  arg_headers :: string
  arg_length :: nat
  arg_protocol :: string

text \<open>The effects of the handler, in the order they happen: reading the clock, a \<open>Read\<close>
  on the body, a line logged, the call of \<open>ExecContext\<close> with its context, query, arguments
  and the error it returned, and writes to the response.\<close>

datatype event =
    EvNow
  | EvRead
  | EvLog string
  | EvExec nat string insert_args "error option"
  | EvWrite string
  | EvWriteHeader nat

text \<open>\<open>server\<close>: the store's \<open>ExecContext\<close> (its \<open>sql.Result\<close> is never used, so only the
  error is kept) and the injected clock. The clock is not a constant: what it returns
  depends on when it is called, that is on the events before the call.\<close>

record server =
  db :: "nat \<Rightarrow> string \<Rightarrow> insert_args \<Rightarrow> error option"
  now :: "event list \<Rightarrow> Time"

text \<open>\<open>http.ResponseWriter\<close>: \<open>status\<close> is \<open>None\<close> until the header is written. The first
  \<open>Write\<close> before any \<open>WriteHeader\<close> writes the header with status 200; a \<open>WriteHeader\<close>
  after the header is written changes nothing (the library logs a superfluous call).\<close>

record ResponseWriter =
  status :: "nat option"
  body :: string

definition WriteHeader :: "ResponseWriter \<Rightarrow> nat \<Rightarrow> ResponseWriter" where
  "WriteHeader w code = (if status w = None then w\<lparr>status := Some code\<rparr> else w)"

definition Write :: "ResponseWriter \<Rightarrow> string \<Rightarrow> ResponseWriter \<times> error option" where
  "Write w b =
     (let w1 = (if status w = None then WriteHeader w 200 else w)
      in (w1\<lparr>body := body w1 @ b\<rparr>, None))"

text \<open>What the HTTP server does with the response once the handler has returned: a header
  that was never written is written with status 200.\<close>

definition finishRequest :: "ResponseWriter \<Rightarrow> ResponseWriter" where
  "finishRequest w = (if status w = None then WriteHeader w 200 else w)"

definition newResponse :: ResponseWriter where
  "newResponse = \<lparr>status = None, body = []\<rparr>"

subsection \<open>The request handler: library functions\<close>

text \<open>\<open>strings.Join\<close>.\<close>

fun join :: "string list \<Rightarrow> string \<Rightarrow> string" where
  "join [] sep = []"
| "join [x] sep = x"
| "join (x # y # xs) sep = x @ sep @ join (y # xs) sep"

text \<open>Parameters of the handler: the escaping functions of \<open>net/url\<close> and the string
  quoting of \<open>encoding/json\<close>.\<close>

record http_lib =
  escapeHost :: "string \<Rightarrow> string"
  EscapedPath :: "url_URL \<Rightarrow> string"
  EscapedFragment :: "url_URL \<Rightarrow> string"
  jsonQuote :: "string \<Rightarrow> string"

text \<open>\<open>(*url.URL).String\<close>, following the library's source.\<close>

definition URL_String :: "http_lib \<Rightarrow> url_URL \<Rightarrow> string" where
  "URL_String L u =
     (let buf = (if Scheme u \<noteq> [] then Scheme u @ '':'' else []);
          buf =
            (if Opaque u \<noteq> [] then buf @ Opaque u
             else
               (let buf =
                      (if Scheme u \<noteq> [] \<or> urlHost u \<noteq> [] \<or> User u \<noteq> None then
                         (if OmitHost u \<and> urlHost u = [] \<and> User u = None then buf
                          else
                            (let buf = (if urlHost u \<noteq> [] \<or> Path u \<noteq> [] \<or> User u \<noteq> None
                                        then buf @ ''//'' else buf);
                                 buf = (case User u of Some ui \<Rightarrow> buf @ ui @ ''@'' | None \<Rightarrow> buf)
                             in if urlHost u \<noteq> [] then buf @ escapeHost L (urlHost u) else buf))
                       else buf);
                    path = EscapedPath L u;
                    buf = (if path \<noteq> [] \<and> hd path \<noteq> CHR ''/'' \<and> urlHost u \<noteq> []
                           then buf @ ''/'' else buf);
                    buf = (if buf = [] \<and> CHR '':'' \<in> set (takeWhile (\<lambda>c. c \<noteq> CHR ''/'') path)
                           then buf @ ''./'' else buf)
                in buf @ path));
          buf = (if ForceQuery u \<or> RawQuery u \<noteq> [] then buf @ ''?'' @ RawQuery u else buf);
          buf = (if Fragment u \<noteq> [] then buf @ ''#'' @ EscapedFragment L u else buf)
      in buf)"

text \<open>\<open>fmt.Sprint\<close> of an \<open>http.Header\<close>, a map from strings to slices of strings: \<open>fmt\<close>
  collects the entries, sorts them by key (Go 1.12 and later), and prints
  \<open>map[k1:[v v] k2:[v]]\<close>.\<close>

definition fmt_Sprint_Header :: "(string \<times> string list) list \<Rightarrow> string" where
  "fmt_Sprint_Header h =
     ''map['' @ join (map (\<lambda>(k, vs). k @ '':'' @ ''['' @ join vs '' '' @ '']'')
                          (sort_key fst h)) '' '' @ '']''"

text \<open>\<open>ioutil.ReadAll\<close>: reads until \<open>io.EOF\<close> or a failure, and returns what it has read
  so far together with the failure (none at \<open>io.EOF\<close>).\<close>

fun ReadAll :: "read_result list \<Rightarrow> event list \<Rightarrow> (string \<times> error option) \<times> event list" where
  "ReadAll [] tr = (([], None), tr @ [EvRead])"
| "ReadAll (Data b # rs) tr =
     (case ReadAll rs (tr @ [EvRead]) of ((bs, err), tr') \<Rightarrow> ((b @ bs, err), tr'))"
| "ReadAll (Fail e # rs) tr = (([], Some e), tr @ [EvRead])"

definition log_Printf :: "string \<Rightarrow> event list \<Rightarrow> event list" where
  "log_Printf line tr = tr @ [EvLog line]"

text \<open>\<open>json.NewEncoder(w).Encode\<close> of a struct whose fields are strings: only exported
  fields (the name starts with an upper-case letter) are marshalled; the encoder writes
  the object followed by a newline.\<close>

definition isExported :: "string \<Rightarrow> bool" where
  "isExported name = (case name of [] \<Rightarrow> False | c # _ \<Rightarrow> CHR ''A'' \<le> c \<and> c \<le> CHR ''Z'')"

definition json_Marshal :: "http_lib \<Rightarrow> (string \<times> string) list \<Rightarrow> string" where
  "json_Marshal L flds =
     ''{'' @ join (map (\<lambda>(name, v). jsonQuote L name @ '':'' @ jsonQuote L v)
                       (filter (\<lambda>(name, v). isExported name) flds)) '','' @ ''}''"

definition json_Encode ::
  "http_lib \<Rightarrow> ResponseWriter \<Rightarrow> (string \<times> string) list \<Rightarrow> event list
     \<Rightarrow> (ResponseWriter \<times> error option) \<times> event list" where
  "json_Encode L w flds tr =
     (let b = json_Marshal L flds @ [CHR 0x0A]
      in (Write w b, tr @ [EvWrite b]))"

subsection \<open>The request handler: \<open>jsonError\<close> and \<open>serveReqLog\<close>\<close>

definition jsonError ::
  "http_lib \<Rightarrow> ResponseWriter \<Rightarrow> string \<Rightarrow> nat \<Rightarrow> event list \<Rightarrow> ResponseWriter \<times> event list" where
  "jsonError L w msg code tr =
     (case json_Encode L w [(''msg'', msg)] tr of
        ((w1, err), tr1) \<Rightarrow>
          (let tr2 = (case err of
                        Some e \<Rightarrow> log_Printf (''jsonError: got error writing to client: '' @ message e) tr1
                      | None \<Rightarrow> tr1)
           in (WriteHeader w1 code, tr2 @ [EvWriteHeader code])))"

text \<open>The statement, a raw string literal that spans two lines of the source.\<close>

definition insert_query :: string where
  "insert_query =
     ''insert into request (rat, url, method, remote, headers, length, protocol)''
     @ [CHR 0x0A, CHR 0x09, CHR 0x09] @ ''values (?, ?, ?, ?, ?, ?, ?)''"

definition serveReqLog ::
  "server \<Rightarrow> http_lib \<Rightarrow> ResponseWriter \<Rightarrow> http_Request \<Rightarrow> event list
     \<Rightarrow> ResponseWriter \<times> event list" where
  "serveReqLog s L w r tr0 =
     (let recievedAt = Time_UTC (now s tr0);
          tr1 = tr0 @ [EvNow];
          u = URL r;
          u = u\<lparr>urlHost := Host r\<rparr>;
          u = u\<lparr>Scheme := ''http''\<rparr>;
          u = (if TLS r \<noteq> None then u\<lparr>Scheme := ''https''\<rparr> else u);
          url = URL_String L u;
          method = Method r;
          remote = RemoteAddr r;
          headers = fmt_Sprint_Header (Header r);
          (length', tr2) =
            (case Body r of
               None \<Rightarrow> (0, tr1)
             | Some rd \<Rightarrow>
                 (case ReadAll rd tr1 of
                    ((b, err), t) \<Rightarrow>
                      (length b,
                       (case err of
                          Some e \<Rightarrow>
                            log_Printf (''serveReqLog: got error reading request body: '' @ message e) t
                        | None \<Rightarrow> t))));
          protocol = Proto r;
          args = \<lparr>arg_rat = recievedAt, arg_url = url, arg_method = method,
                  arg_remote = remote, arg_headers = headers, arg_length = length',
                  arg_protocol = protocol\<rparr>;
          err = db s (Ctx r) insert_query args;
          tr3 = tr2 @ [EvExec (Ctx r) insert_query args err]
      in case err of
           Some e \<Rightarrow>
             jsonError L w (''internal error: '' @ message e) 500
               (log_Printf (''serveReqLog: got error writing to DB: '' @ message e) tr3)
         | None \<Rightarrow> (w, tr3))"

text \<open>Observers of a run: the arguments of the insert calls in a trace, the scheme of a
  URL text (what stands before its first colon), and the response a caller gets from a
  fresh response writer once the server has finished the request.\<close>

fun inserted :: "event list \<Rightarrow> insert_args list" where
  "inserted [] = []"
| "inserted (EvExec c q a e # tr) = a # inserted tr"
| "inserted (_ # tr) = inserted tr"

definition url_scheme :: "string \<Rightarrow> string" where
  "url_scheme s = takeWhile (\<lambda>c. c \<noteq> CHR '':'') s"

definition respond :: "server \<Rightarrow> http_lib \<Rightarrow> http_Request \<Rightarrow> ResponseWriter" where
  "respond s L r = finishRequest (fst (serveReqLog s L newResponse r []))"

subsection \<open>Concrete inputs\<close>

text \<open>A library instance that escapes nothing and quotes with double quotes, a clock in
  a zone other than UTC whose reading moves with every event, a store that accepts every
  insert and one that refuses every insert, and two requests with the same headers held in
  different internal orders: a POST whose body breaks off after three bytes, and a GET
  without body that arrived over TLS.\<close>

definition lib_plain :: http_lib where
  "lib_plain = \<lparr>escapeHost = (\<lambda>h. h), EscapedPath = Path, EscapedFragment = Fragment,
                 jsonQuote = (\<lambda>s. [CHR 0x22] @ s @ [CHR 0x22])\<rparr>"

definition url_a :: url_URL where
  "url_a = \<lparr>Scheme = [], Opaque = [], User = None, urlHost = [], Path = ''/a'', RawPath = [],
            OmitHost = False, ForceQuery = False, RawQuery = ''x=1'', Fragment = [],
            RawFragment = []\<rparr>"

definition req_truncated :: http_Request where
  "req_truncated =
     \<lparr>Method = ''POST'', URL = url_a, Proto = ''HTTP/1.1'',
      Header = [(''User-Agent'', [''curl'']), (''Accept'', [''a'', ''b''])],
      Body = Some [Data ''hel'', Fail (Error ''unexpected EOF'')],
      Host = ''example.com'', RemoteAddr = ''10.0.0.1:5555'', TLS = None, Ctx = 0\<rparr>"

definition req_get :: http_Request where
  "req_get =
     \<lparr>Method = ''GET'', URL = url_a, Proto = ''HTTP/1.1'',
      Header = [(''Accept'', [''a'', ''b'']), (''User-Agent'', [''curl''])],
      Body = None,
      Host = ''example.com'', RemoteAddr = ''10.0.0.1:5555'',
      TLS = Some \<lparr>Version = 772, ServerName = ''example.com''\<rparr>, Ctx = 7\<rparr>"

definition clock_cet :: "event list \<Rightarrow> Time" where
  "clock_cet tr = \<lparr>instant = 1000 + int (length tr), loc = Zone ''CET''\<rparr>"

definition srv_ok :: server where
  "srv_ok = \<lparr>db = (\<lambda>c q a. None), now = clock_cet\<rparr>"

definition srv_down :: server where
  "srv_down = \<lparr>db = (\<lambda>c q a. Some (Error ''connection refused'')), now = clock_cet\<rparr>"

text \<open>For the start-up path: a library instance in which every parse and connection
  succeeds, a world without files, and three environments.\<close>

definition startup_plain :: startup_lib where
  "startup_plain =
     \<lparr>AppendCertsFromPEM = (\<lambda>pem. [pem]),
      X509KeyPair = (\<lambda>c k. Inr (c @ k)),
      FormatDSN = cfgAddr,
      sql_Open = (\<lambda>dsn. Inr 0),
      Ping = (\<lambda>d. None)\<rparr>"

definition world_empty :: startup_world where
  "world_empty = \<lparr>files = Map.empty, tlsConfigRegistry = Map.empty, reads = []\<rparr>"

definition env_no_ca_no_key :: "string \<rightharpoonup> string" where
  "env_no_ca_no_key = [''DB_CLIENT_CERT_PATH'' \<mapsto> ''/etc/client.pem'']"

definition env_no_key :: "string \<rightharpoonup> string" where
  "env_no_key = [''DB_CA_CERT_PATH'' \<mapsto> ''/etc/ca.pem'',
                 ''DB_CLIENT_CERT_PATH'' \<mapsto> ''/etc/client.pem'']"

definition env_skip :: "string \<rightharpoonup> string" where
  "env_skip = [''DB_SKIP_TLS'' \<mapsto> ''1'', ''DB_USER'' \<mapsto> ''reqlog'']"

section \<open>Properties\<close>

subsection \<open>Traces and readers\<close>

lemma inserted_append: "inserted (xs @ ys) = inserted xs @ inserted ys"
  by (induction xs rule: inserted.induct) simp_all

text \<open>Draining a body only adds events to the trace, and none of them is an insert.\<close>

lemma ReadAll_events:
  "\<exists>es. snd (ReadAll rd tr) = tr @ es \<and> inserted es = []
        \<and> (\<forall>c q a e. EvExec c q a e \<notin> set es)"
proof (induction rd tr rule: ReadAll.induct)
  case (1 tr)
  then show ?case by simp
next
  case (2 b rs tr)
  then obtain es where es: "snd (ReadAll rs (tr @ [EvRead])) = (tr @ [EvRead]) @ es"
    "inserted es = []" "\<forall>c q a e. EvExec c q a e \<notin> set es"
    by blast
  have "snd (ReadAll (Data b # rs) tr) = tr @ (EvRead # es)"
    using es(1) by (auto split: prod.splits)
  moreover have "inserted (EvRead # es) = []"
    using es(2) by simp
  moreover have "\<forall>c q a e. EvExec c q a e \<notin> set (EvRead # es)"
    using es(3) by simp
  ultimately show ?case by blast
next
  case (3 e rs tr)
  then show ?case by simp
qed

lemma ReadAll_inserted: "inserted (snd (ReadAll rd tr)) = inserted tr"
  using ReadAll_events [of rd tr] by (auto simp: inserted_append)

lemma ReadAll_exec:
  "EvExec c q a e \<in> set (snd (ReadAll rd tr)) \<longleftrightarrow> EvExec c q a e \<in> set tr"
  using ReadAll_events [of rd tr] by auto

text \<open>A reader that delivers the chunks \<open>cs\<close> and then fails: \<open>ReadAll\<close> returns the bytes
  of the chunks together with the failure.\<close>

lemma ReadAll_fails:
  "ReadAll (map Data cs @ Fail e # rest) tr =
     ((concat cs, Some e), tr @ replicate (Suc (length cs)) EvRead)"
proof (induction cs arbitrary: tr)
  case Nil
  then show ?case by simp
next
  case (Cons c cs)
  show ?case by (simp add: Cons.IH replicate_append_same)
qed

subsection \<open>URLs and headers\<close>

lemma URL_String_scheme:
  "Scheme u \<noteq> [] \<Longrightarrow> \<exists>rest. URL_String L u = Scheme u @ '':'' @ rest"
  unfolding URL_String_def Let_def
  by (simp split: option.splits)

text \<open>Two association lists with distinct keys that are the same map have the same
  entries in key order.\<close>

lemma sort_key_fst_unique:
  assumes "distinct (map fst h1)" "distinct (map fst h2)" "map_of h1 = map_of h2"
  shows "sort_key fst h1 = sort_key fst h2"
proof -
  have s: "set h1 = set h2"
    using assms map_of_inject_set by blast
  have i: "inj_on fst (set h1)"
    using assms(1) by (simp add: distinct_map)
  show ?thesis
  proof (rule map_sorted_distinct_set_unique [where f = fst])
    show "inj_on fst (set (sort_key fst h1) \<union> set (sort_key fst h2))"
      using i s by simp
    show "distinct (map fst (sort_key fst h1))"
      using assms(1) by (simp add: distinct_map)
    show "distinct (map fst (sort_key fst h2))"
      using assms(2) by (simp add: distinct_map)
    show "set (sort_key fst h1) = set (sort_key fst h2)"
      using s by simp
  qed simp_all
qed

subsection \<open>A run of the handler\<close>

text \<open>\<open>jsonError\<close> writes the same three bytes whatever the message is, and then asks
  for the status.\<close>

lemma jsonError_run:
  "jsonError L w msg code tr =
     (WriteHeader (fst (Write w (''{}'' @ [CHR 0x0A]))) code,
      tr @ [EvWrite (''{}'' @ [CHR 0x0A]), EvWriteHeader code])"
  by (simp add: jsonError_def json_Encode_def json_Marshal_def isExported_def Write_def Let_def)

lemmas run_defs = serveReqLog_def Let_def jsonError_run log_Printf_def case_prod_beta
  inserted_append

text \<open>Every run makes exactly one insert call, with these arguments.\<close>

lemma serveReqLog_inserted:
  "inserted (snd (serveReqLog s L w r tr0)) =
     inserted tr0 @
     [\<lparr>arg_rat = Time_UTC (now s tr0),
       arg_url = URL_String L ((URL r)\<lparr>urlHost := Host r,
                    Scheme := (if TLS r \<noteq> None then ''https'' else ''http'')\<rparr>),
       arg_method = Method r,
       arg_remote = RemoteAddr r,
       arg_headers = fmt_Sprint_Header (Header r),
       arg_length = (case Body r of None \<Rightarrow> 0
                     | Some rd \<Rightarrow> length (fst (fst (ReadAll rd (tr0 @ [EvNow]))))),
       arg_protocol = Proto r\<rparr>]"
  by (auto simp add: run_defs ReadAll_inserted split: option.splits)

lemma serveReqLog_starts_with_clock:
  "\<exists>rest. snd (serveReqLog s L w r tr0) = tr0 @ EvNow # rest"
proof (cases "Body r")
  case None
  then show ?thesis
    by (auto simp add: run_defs split: option.splits)
next
  case (Some rd)
  obtain es where "snd (ReadAll rd (tr0 @ [EvNow])) = (tr0 @ [EvNow]) @ es"
    using ReadAll_events by blast
  with Some show ?thesis
    by (auto simp add: run_defs split: option.splits)
qed

lemma serveReqLog_success:
  "EvExec c q a None \<in> set (snd (serveReqLog s L w r [])) \<Longrightarrow>
     fst (serveReqLog s L w r []) = w"
  by (cases "TLS r"; cases "Body r")
     (auto simp add: run_defs ReadAll_exec split: option.splits)

lemma serveReqLog_failure:
  "EvExec c q a (Some e) \<in> set (snd (serveReqLog s L w r [])) \<Longrightarrow>
     fst (serveReqLog s L w r []) = WriteHeader (fst (Write w (''{}'' @ [CHR 0x0A]))) 500
     \<and> EvWrite (''{}'' @ [CHR 0x0A]) \<in> set (snd (serveReqLog s L w r []))
     \<and> EvWriteHeader 500 \<in> set (snd (serveReqLog s L w r []))"
  by (cases "TLS r"; cases "Body r")
     (auto simp add: run_defs ReadAll_exec split: option.splits)

subsection \<open>Start-up\<close>

lemmas error_defs = errCertPath_def errClientCertPath_def errClientKeyPath_def

lemma dbConfFromEnv_missing:
  assumes "env ''DB_SKIP_TLS'' = None"
    and "env ''DB_CA_CERT_PATH'' = None \<or> env ''DB_CLIENT_CERT_PATH'' = None
         \<or> env ''DB_CLIENT_KEY_PATH'' = None"
  shows "dbConfFromEnv L env w =
       (Inl (if env ''DB_CA_CERT_PATH'' = None then errCertPath
             else if env ''DB_CLIENT_CERT_PATH'' = None then errClientCertPath
             else errClientKeyPath), w)"
  using assms by (auto simp add: dbConfFromEnv_def Let_def split: option.splits)

section \<open>The claims\<close>

text \<open>
  C1. When the insert call returns an error, the response is meant to have status 500 and
  a JSON body. The handler does ask for status 500, but only after \<open>jsonError\<close> has
  written the body: the first write sends the header with status 200, and the later
  \<open>WriteHeader\<close> changes nothing. For every request whose insert call fails, the caller gets
  status 200, not 500.
\<close>

theorem insert_failure_status:
  assumes "EvExec c q a (Some e) \<in> set (snd (serveReqLog s L newResponse r []))"
  shows "status (respond s L r) = Some 200
     \<and> status (respond s L r) \<noteq> Some 500
     \<and> EvWriteHeader 500 \<in> set (snd (serveReqLog s L newResponse r []))"
  using serveReqLog_failure [OF assms]
  by (simp add: respond_def finishRequest_def WriteHeader_def Write_def newResponse_def Let_def)

theorem insert_failure_status_witness:
  "status (respond srv_down lib_plain req_truncated) = Some 200
   \<and> body (respond srv_down lib_plain req_truncated) = ''{}'' @ [CHR 0x0A]"
proof -
  have "EvExec 0 insert_query
          (hd (inserted (snd (serveReqLog srv_down lib_plain newResponse req_truncated []))))
          (Some (Error ''connection refused''))
        \<in> set (snd (serveReqLog srv_down lib_plain newResponse req_truncated []))"
    by (simp add: run_defs srv_down_def req_truncated_def)
  from insert_failure_status [OF this]
  have "status (respond srv_down lib_plain req_truncated) = Some 200"
    by blast
  moreover have "body (respond srv_down lib_plain req_truncated) = ''{}'' @ [CHR 0x0A]"
    by (simp add: respond_def run_defs srv_down_def req_truncated_def finishRequest_def
        WriteHeader_def Write_def newResponse_def)
  ultimately show ?thesis by blast
qed

text \<open>
  C2, as amended. When draining the body fails after the chunks \<open>cs\<close> have been read, the
  recorded body length is the number of bytes read before the failure (0 only when the
  failure comes before any byte), the failure is logged, and the request still reaches the
  insert step: exactly one insert call is made.
\<close>

theorem truncated_body_length:
  assumes "Body r = Some (map Data cs @ Fail e # rest)"
  shows "map arg_length (inserted (snd (serveReqLog s L w r []))) = [length (concat cs)]
     \<and> EvLog (''serveReqLog: got error reading request body: '' @ message e)
         \<in> set (snd (serveReqLog s L w r []))"
proof -
  have "EvLog (''serveReqLog: got error reading request body: '' @ message e)
         \<in> set (snd (serveReqLog s L w r []))"
    using assms
    by (auto simp add: run_defs ReadAll_fails split: option.splits)
  then show ?thesis
    using assms by (simp add: serveReqLog_inserted ReadAll_fails)
qed

theorem truncated_body_length_witness:
  "Body req_truncated = Some (map Data [''hel''] @ Fail (Error ''unexpected EOF'') # [])
   \<and> map arg_length (inserted (snd (serveReqLog srv_ok lib_plain newResponse req_truncated [])))
       = [3]"
proof -
  have h: "Body req_truncated = Some (map Data [''hel''] @ Fail (Error ''unexpected EOF'') # [])"
    by (simp add: req_truncated_def)
  show ?thesis
    using truncated_body_length [OF h, of srv_ok lib_plain newResponse] h by simp
qed

text \<open>
  C2 as stated fails: for the body that delivers three bytes and then fails, draining
  fails and the recorded length is not 0.
\<close>

theorem truncated_body_length_counterexample:
  "snd (fst (ReadAll [Data ''hel'', Fail (Error ''unexpected EOF'')] [EvNow])) \<noteq> None
   \<and> Body req_truncated = Some [Data ''hel'', Fail (Error ''unexpected EOF'')]
   \<and> \<not> map arg_length
           (inserted (snd (serveReqLog srv_ok lib_plain newResponse req_truncated []))) = [0]"
  by (simp add: serveReqLog_inserted req_truncated_def)

text \<open>
  C3. The recorded headers text is a function of the header map alone: two invocations of
  the handler, whatever their servers, clocks, earlier events and other request fields,
  on requests whose header collections are the same map (in whatever internal order)
  record the same text.
\<close>

theorem headers_deterministic:
  assumes "distinct (map fst (Header r1))" and "distinct (map fst (Header r2))"
    and "map_of (Header r1) = map_of (Header r2)"
  shows "arg_headers (last (inserted (snd (serveReqLog s1 L1 w1 r1 t1))))
       = arg_headers (last (inserted (snd (serveReqLog s2 L2 w2 r2 t2))))"
proof -
  have "fmt_Sprint_Header (Header r1) = fmt_Sprint_Header (Header r2)"
    using sort_key_fst_unique [OF assms] by (simp add: fmt_Sprint_Header_def)
  then show ?thesis
    by (simp add: serveReqLog_inserted)
qed

theorem headers_deterministic_witness:
  "map_of (Header req_truncated) = map_of (Header req_get)
   \<and> Header req_truncated \<noteq> Header req_get
   \<and> arg_headers (last (inserted (snd (serveReqLog srv_ok lib_plain newResponse req_truncated []))))
     = arg_headers (last (inserted (snd (serveReqLog srv_down lib_plain newResponse req_get [EvNow]))))"
proof -
  have m: "map_of (Header req_truncated) = map_of (Header req_get)"
    by (rule ext) (simp add: req_truncated_def req_get_def)
  have d1: "distinct (map fst (Header req_truncated))"
    and d2: "distinct (map fst (Header req_get))"
    by (simp_all add: req_truncated_def req_get_def)
  have n: "Header req_truncated \<noteq> Header req_get"
    by (simp add: req_truncated_def req_get_def)
  show ?thesis
    using headers_deterministic [OF d1 d2 m, of srv_ok lib_plain newResponse "[]"
        srv_down lib_plain newResponse "[EvNow]"] m n
    by simp
qed

text \<open>
  C4. The scheme of the recorded URL is \<open>https\<close> exactly when the request carries a TLS
  connection state, and \<open>http\<close> exactly when it does not.
\<close>

theorem url_scheme_tls:
  "(map (\<lambda>a. url_scheme (arg_url a)) (inserted (snd (serveReqLog s L w r []))) = [''https''])
      = (TLS r \<noteq> None)
   \<and> (map (\<lambda>a. url_scheme (arg_url a)) (inserted (snd (serveReqLog s L w r []))) = [''http''])
      = (TLS r = None)"
proof -
  have https: "url_scheme (URL_String L (u\<lparr>Scheme := ''https''\<rparr>)) = ''https''" for u
    using URL_String_scheme [of "u\<lparr>Scheme := ''https''\<rparr>" L] by (auto simp: url_scheme_def)
  have http: "url_scheme (URL_String L (u\<lparr>Scheme := ''http''\<rparr>)) = ''http''" for u
    using URL_String_scheme [of "u\<lparr>Scheme := ''http''\<rparr>" L] by (auto simp: url_scheme_def)
  show ?thesis
    by (simp add: serveReqLog_inserted https http)
qed

theorem url_scheme_tls_witness:
  "TLS req_get \<noteq> None
   \<and> map (\<lambda>a. url_scheme (arg_url a))
         (inserted (snd (serveReqLog srv_ok lib_plain newResponse req_get []))) = [''https'']
   \<and> TLS req_truncated = None
   \<and> map (\<lambda>a. url_scheme (arg_url a))
         (inserted (snd (serveReqLog srv_ok lib_plain newResponse req_truncated []))) = [''http'']"
  using url_scheme_tls [of srv_ok lib_plain newResponse req_get]
    url_scheme_tls [of srv_ok lib_plain newResponse req_truncated]
  by (simp add: req_get_def req_truncated_def)

text \<open>
  C5. With the TLS opt-out unset and at least one of the three path settings missing,
  configuration resolution fails, \<open>main\<close> exits with status 1 after logging the error and
  never listens, and the error names the missing path: each of the three paths, when it is
  the one missing, gives its own error, and the three messages differ from one another.
\<close>

theorem missing_cert_path_fails_startup:
  assumes "env ''DB_SKIP_TLS'' = None"
    and "env ''DB_CA_CERT_PATH'' = None \<or> env ''DB_CLIENT_CERT_PATH'' = None
         \<or> env ''DB_CLIENT_KEY_PATH'' = None"
  shows "\<exists>e. dbConfFromEnv L env w = (Inl e, w)
       \<and> main L env w = (Exit 1, [''starting'', message e], w)
       \<and> e \<in> {errCertPath, errClientCertPath, errClientKeyPath}
       \<and> (env ''DB_CLIENT_CERT_PATH'' \<noteq> None \<and> env ''DB_CLIENT_KEY_PATH'' \<noteq> None
            \<longrightarrow> e = errCertPath)
       \<and> (env ''DB_CA_CERT_PATH'' \<noteq> None \<and> env ''DB_CLIENT_KEY_PATH'' \<noteq> None
            \<longrightarrow> e = errClientCertPath)
       \<and> (env ''DB_CA_CERT_PATH'' \<noteq> None \<and> env ''DB_CLIENT_CERT_PATH'' \<noteq> None
            \<longrightarrow> e = errClientKeyPath)
       \<and> distinct [message errCertPath, message errClientCertPath, message errClientKeyPath]"
proof -
  have d: "distinct [message errCertPath, message errClientCertPath, message errClientKeyPath]"
    by (simp add: error_defs)
  show ?thesis
    using assms(2) d
    by (auto simp add: dbConfFromEnv_missing [OF assms] main_def Let_def)
qed

theorem missing_cert_path_fails_startup_witness:
  "env_no_key ''DB_SKIP_TLS'' = None \<and> env_no_key ''DB_CLIENT_KEY_PATH'' = None
   \<and> main startup_plain env_no_key world_empty
       = (Exit 1, [''starting'', ''DB_CLIENT_KEY_PATH is required and was not set''],
          world_empty)"
proof -
  have h: "env_no_key ''DB_SKIP_TLS'' = None"
    and k: "env_no_key ''DB_CA_CERT_PATH'' = None \<or> env_no_key ''DB_CLIENT_CERT_PATH'' = None
         \<or> env_no_key ''DB_CLIENT_KEY_PATH'' = None"
    by (simp_all add: env_no_key_def)
  show ?thesis
    using h k missing_cert_path_fails_startup [of env_no_key startup_plain world_empty]
    by (auto simp add: env_no_key_def error_defs)
qed

text \<open>
  C6. The handler's first effect is the reading of the injected clock: the clock is read
  in the state in which the handler was entered, before any read of the body and before
  the insert, and the recorded time is that reading with the same instant, in UTC.
\<close>

theorem received_at_first:
  "\<exists>rest. snd (serveReqLog s L w r tr0) = tr0 @ EvNow # rest
     \<and> map arg_rat (inserted rest) = [Time_UTC (now s tr0)]
     \<and> loc (Time_UTC (now s tr0)) = UTC
     \<and> instant (Time_UTC (now s tr0)) = instant (now s tr0)"
proof -
  obtain rest where rest: "snd (serveReqLog s L w r tr0) = tr0 @ EvNow # rest"
    using serveReqLog_starts_with_clock by blast
  have "inserted (tr0 @ EvNow # rest) = inserted tr0 @ inserted rest"
    by (simp add: inserted_append)
  then have "map arg_rat (inserted rest) = [Time_UTC (now s tr0)]"
    using serveReqLog_inserted [of s L w r tr0] by (simp add: rest)
  then show ?thesis
    using rest by (simp add: Time_UTC_def)
qed

theorem received_at_first_witness:
  "\<exists>rest. snd (serveReqLog srv_ok lib_plain newResponse req_truncated []) = EvNow # rest
     \<and> map arg_rat (inserted rest) = [\<lparr>instant = 1000, loc = UTC\<rparr>]"
  using received_at_first [of srv_ok lib_plain newResponse req_truncated "[]"]
  by (simp add: srv_ok_def clock_cet_def Time_UTC_def)

text \<open>
  C7. When the insert call returns no error, the handler writes nothing, and the response
  the caller gets has status 200 and an empty body.
\<close>

theorem insert_success_response:
  assumes "EvExec c q a None \<in> set (snd (serveReqLog s L newResponse r []))"
  shows "fst (serveReqLog s L newResponse r []) = newResponse
     \<and> respond s L r = \<lparr>status = Some 200, body = []\<rparr>"
  using serveReqLog_success [OF assms]
  by (simp add: respond_def finishRequest_def WriteHeader_def newResponse_def)

theorem insert_success_response_witness:
  "respond srv_ok lib_plain req_get = \<lparr>status = Some 200, body = []\<rparr>"
proof -
  have "EvExec 7 insert_query
          (hd (inserted (snd (serveReqLog srv_ok lib_plain newResponse req_get []))))
          None
        \<in> set (snd (serveReqLog srv_ok lib_plain newResponse req_get []))"
    by (simp add: run_defs srv_ok_def req_get_def)
  from insert_success_response [OF this] show ?thesis by simp
qed

text \<open>
  C8. With the TLS opt-out set, configuration resolution succeeds without building a
  trust profile: the configuration names no TLS profile, no file is read and nothing is
  registered (the world is returned as it was), and the result does not depend on the
  three path settings, on the files, or on the certificate library.
\<close>

theorem skip_tls_skips_trust_profile:
  assumes "env ''DB_SKIP_TLS'' = Some v"
  shows "\<exists>c. dbConfFromEnv L env w = (Inr c, w)
       \<and> cfgTLSConfig c = []
       \<and> reads (snd (dbConfFromEnv L env w)) = reads w
       \<and> tlsConfigRegistry (snd (dbConfFromEnv L env w)) = tlsConfigRegistry w
       \<and> dbConfFromEnv L' (env(''DB_CA_CERT_PATH'' := ca, ''DB_CLIENT_CERT_PATH'' := cc,
                                ''DB_CLIENT_KEY_PATH'' := ck)) (w\<lparr>files := f\<rparr>)
           = (Inr c, w\<lparr>files := f\<rparr>)"
  using assms by (simp add: dbConfFromEnv_def Let_def split: option.splits)

theorem skip_tls_skips_trust_profile_witness:
  "env_skip ''DB_SKIP_TLS'' = Some ''1''
   \<and> dbConfFromEnv startup_plain env_skip world_empty
       = (Inr \<lparr>cfgUser = ''reqlog'', cfgPasswd = '''', cfgNet = ''tcp'',
               cfgAddr = ''localhost:3306'', cfgDBName = ''test'', cfgLoc = UTC,
               cfgParseTime = True, cfgTLSConfig = ''''\<rparr>, world_empty)"
proof -
  have h: "env_skip ''DB_SKIP_TLS'' = Some ''1''"
    by (simp add: env_skip_def)
  obtain c where c: "dbConfFromEnv startup_plain env_skip world_empty = (Inr c, world_empty)"
    "cfgTLSConfig c = []"
    using h skip_tls_skips_trust_profile [of env_skip "''1''" startup_plain world_empty]
    by blast
  show ?thesis
    using c h by (simp add: dbConfFromEnv_def env_skip_def Let_def)
qed

text \<open>
  C9. When the insert call fails, the body sent is the JSON encoding of a struct whose only
  field, \<open>msg\<close>, is not exported: whatever the error message, the encoding is the empty
  object, and the body is \<open>{}\<close> followed by a newline.
\<close>

theorem insert_failure_body:
  assumes "EvExec c q a (Some e) \<in> set (snd (serveReqLog s L newResponse r []))"
  shows "body (respond s L r)
           = json_Marshal L [(''msg'', ''internal error: '' @ message e)] @ [CHR 0x0A]
     \<and> body (respond s L r) = ''{}'' @ [CHR 0x0A]
     \<and> \<not> isExported ''msg''
     \<and> EvWrite (''{}'' @ [CHR 0x0A]) \<in> set (snd (serveReqLog s L newResponse r []))"
  using serveReqLog_failure [OF assms]
  by (simp add: respond_def finishRequest_def WriteHeader_def Write_def newResponse_def
      json_Marshal_def isExported_def Let_def)

theorem insert_failure_body_witness:
  "body (respond srv_down lib_plain req_get) = ''{}'' @ [CHR 0x0A]"
proof -
  have "EvExec 7 insert_query
          (hd (inserted (snd (serveReqLog srv_down lib_plain newResponse req_get []))))
          (Some (Error ''connection refused''))
        \<in> set (snd (serveReqLog srv_down lib_plain newResponse req_get []))"
    by (simp add: run_defs srv_down_def req_get_def)
  from insert_failure_body [OF this] show ?thesis by blast
qed

text \<open>
  C10. The three path settings are checked in the order CA certificate, client
  certificate, client key, and the first one missing decides the error, whatever the later
  ones are: with the CA path missing the CA error is returned also when the client key
  path is missing too.
\<close>

theorem cert_path_order:
  assumes "env ''DB_SKIP_TLS'' = None"
  shows "(env ''DB_CA_CERT_PATH'' = None \<longrightarrow> dbConfFromEnv L env w = (Inl errCertPath, w))
     \<and> (env ''DB_CA_CERT_PATH'' \<noteq> None \<and> env ''DB_CLIENT_CERT_PATH'' = None
          \<longrightarrow> dbConfFromEnv L env w = (Inl errClientCertPath, w))
     \<and> (env ''DB_CA_CERT_PATH'' \<noteq> None \<and> env ''DB_CLIENT_CERT_PATH'' \<noteq> None
          \<and> env ''DB_CLIENT_KEY_PATH'' = None
          \<longrightarrow> dbConfFromEnv L env w = (Inl errClientKeyPath, w))"
  using assms by (auto simp add: dbConfFromEnv_def Let_def)

theorem cert_path_order_witness:
  "env_no_ca_no_key ''DB_SKIP_TLS'' = None
   \<and> env_no_ca_no_key ''DB_CA_CERT_PATH'' = None
   \<and> env_no_ca_no_key ''DB_CLIENT_KEY_PATH'' = None
   \<and> dbConfFromEnv startup_plain env_no_ca_no_key world_empty = (Inl errCertPath, world_empty)"
proof -
  have h: "env_no_ca_no_key ''DB_SKIP_TLS'' = None"
    by (simp add: env_no_ca_no_key_def)
  show ?thesis
    using h cert_path_order [of env_no_ca_no_key startup_plain world_empty]
    by (simp add: env_no_ca_no_key_def)
qed

end
